theory Spec2Isabelle
  imports Complex_Main
begin

section \<open>Numbers\<close>

text \<open>
  The service computes with JavaScript numbers, which are binary floating-point numbers
  of 64 bits. A number of the model is a rational: a decimal literal of the code or of the
  exchange stands for the double nearest to it. The ledger adds and multiplies amounts;
  these sums and products are taken exactly. Normalization divides and floors, and there
  a rounding error in the last place moves the result by a whole tick, so it is modelled
  in the arithmetic of the runtime, operation by operation. Columns of type DECIMAL are
  taken to hold the number written to them.
\<close>

type_synonym number = rat

subsection \<open>Number-to-string conversion of the runtime\<close>

text \<open>
  \<^verbatim>\<open>value.toString()\<close> on a number follows the language standard: with \<open>s\<close> the
  decimal digits of the value without trailing zeros, \<open>k\<close> their count and \<open>n\<close> the
  position of the decimal point (the value is \<open>s * 10 ^ (n - k)\<close>), the result is
  plain digits when \<open>k \<le> n \<le> 21\<close>, digits with a point inside when \<open>0 < n \<le> 21\<close>,
  \<open>0.\<close> then zeros then digits when \<open>-6 < n \<le> 0\<close>, and exponent notation otherwise.
\<close>

definition digitChar :: "nat \<Rightarrow> char" where
  "digitChar d =
     (if d = 0 then CHR ''0'' else if d = 1 then CHR ''1'' else if d = 2 then CHR ''2''
      else if d = 3 then CHR ''3'' else if d = 4 then CHR ''4'' else if d = 5 then CHR ''5''
      else if d = 6 then CHR ''6'' else if d = 7 then CHR ''7'' else if d = 8 then CHR ''8''
      else CHR ''9'')"

fun showNat :: "nat \<Rightarrow> string" where
  "showNat n = (if n < 10 then [digitChar n] else showNat (n div 10) @ [digitChar (n mod 10)])"

declare showNat.simps [simp del]

definition isInteger :: "number \<Rightarrow> bool" where
  "isInteger x = (of_int \<lfloor>x\<rfloor> = x)"

text \<open>
  The number of decimal places of a non-negative decimal number: the least \<open>e\<close> with
  \<open>a * 10 ^ e\<close> an integer. The search is bounded; the printed form of a number of
  the runtime has fewer than 400 decimal places.
\<close>

fun decimalPlacesFrom :: "nat \<Rightarrow> nat \<Rightarrow> number \<Rightarrow> nat" where
  "decimalPlacesFrom fuel e a =
     (if fuel = 0 \<or> isInteger (a * 10 ^ e) then e
      else decimalPlacesFrom (fuel - 1) (e + 1) a)"

declare decimalPlacesFrom.simps [simp del]

definition decimalPlaces :: "number \<Rightarrow> nat" where
  "decimalPlaces a = decimalPlacesFrom 400 0 a"

text \<open>Dropping the trailing zeros of an integer, counting them.\<close>

fun stripZeros :: "nat \<Rightarrow> nat \<Rightarrow> nat \<times> nat" where
  "stripZeros s z =
     (if s \<noteq> 0 \<and> s mod 10 = 0 then stripZeros (s div 10) (z + 1) else (s, z))"

declare stripZeros.simps [simp del]

definition exponentPart :: "int \<Rightarrow> string" where
  "exponentPart ex =
     ''e'' @ (if ex < 0 then ''-'' else ''+'') @ showNat (nat \<bar>ex\<bar>)"

definition positiveToString :: "number \<Rightarrow> string" where
  "positiveToString a =
     (let e = decimalPlaces a;
          (s, z) = stripZeros (nat \<lfloor>a * 10 ^ e\<rfloor>) 0;
          ds = showNat s;
          k = int (length ds);
          n = k + int z - int e
      in if k \<le> n \<and> n \<le> 21 then ds @ replicate (nat (n - k)) CHR ''0''
         else if 0 < n \<and> n \<le> 21 then take (nat n) ds @ ''.'' @ drop (nat n) ds
         else if -6 < n \<and> n \<le> 0 then ''0.'' @ replicate (nat (- n)) CHR ''0'' @ ds
         else if k = 1 then ds @ exponentPart (n - 1)
         else hd ds # ''.'' @ tl ds @ exponentPart (n - 1))"

definition numberToString :: "number \<Rightarrow> string" where
  "numberToString x =
     (if x = 0 then ''0''
      else if x < 0 then ''-'' @ positiveToString (- x)
      else positiveToString x)"

text \<open>\<^verbatim>\<open>str.split(sep)\<close> for a separator of one character.\<close>

fun splitAt :: "char \<Rightarrow> string \<Rightarrow> string list" where
  "splitAt sep [] = [[]]"
| "splitAt sep (c # cs) =
     (if c = sep then [] # splitAt sep cs
      else (case splitAt sep cs of
              [] \<Rightarrow> [[c]]
            | w # ws \<Rightarrow> (c # w) # ws))"

text \<open>
  \<^verbatim>\<open>parseFloat(x.toFixed(d))\<close>: the multiple of \<open>10 ^ -d\<close> nearest to the double
  \<open>x\<close>, the one of larger magnitude when two are equally near; the decimal stands for
  the double that \<open>parseFloat\<close> returns.
\<close>

definition toFixed :: "number \<Rightarrow> nat \<Rightarrow> number" where
  "toFixed x d =
     (if x < 0 then - (of_int \<lfloor>(- x) * 10 ^ d + 1 / 2\<rfloor> / 10 ^ d)
      else of_int \<lfloor>x * 10 ^ d + 1 / 2\<rfloor> / 10 ^ d)"

subsection \<open>Binary floating point\<close>

text \<open>
  \<open>fl x\<close> is the double nearest to \<open>x\<close>, the one with an even significand when
  two are equally near: with \<open>e\<close> the binary exponent of \<open>x\<close>, the significand
  \<open>x / 2 ^ (e - 52)\<close> is rounded to an integer. Each arithmetic operation of the runtime
  returns \<open>fl\<close> of the exact result. Numbers are taken in the normal range, without
  overflow and without subnormal values.
\<close>

fun expUp :: "nat \<Rightarrow> number \<Rightarrow> int \<Rightarrow> int" where
  "expUp fuel a e = (if fuel = 0 \<or> a < 2 then e else expUp (fuel - 1) (a / 2) (e + 1))"

declare expUp.simps [simp del]

fun expDown :: "nat \<Rightarrow> number \<Rightarrow> int \<Rightarrow> int" where
  "expDown fuel a e = (if fuel = 0 \<or> 1 \<le> a then e else expDown (fuel - 1) (a * 2) (e - 1))"

declare expDown.simps [simp del]

definition binaryExponent :: "number \<Rightarrow> int" where
  "binaryExponent a = (if 1 \<le> a then expUp 1100 a 0 else expDown 1100 a 0)"

definition pow2 :: "int \<Rightarrow> number" where
  "pow2 e = (if 0 \<le> e then 2 ^ nat e else 1 / 2 ^ nat (- e))"

definition roundHalfEven :: "number \<Rightarrow> int" where
  "roundHalfEven m =
     (if m - of_int \<lfloor>m\<rfloor> < 1 / 2 then \<lfloor>m\<rfloor>
      else if 1 / 2 < m - of_int \<lfloor>m\<rfloor> then \<lfloor>m\<rfloor> + 1
      else if even \<lfloor>m\<rfloor> then \<lfloor>m\<rfloor> else \<lfloor>m\<rfloor> + 1)"

definition fl :: "number \<Rightarrow> number" where
  "fl x =
     (if x = 0 then 0
      else let a = \<bar>x\<bar>;
               u = pow2 (binaryExponent a - 52);
               r = of_int (roundHalfEven (a / u)) * u
           in if x < 0 then - r else r)"

subsection \<open>tradingUtils\<close>

text \<open>
  \<^verbatim>\<open>
  function countDecimals(value: number): number {
      if (Math.floor(value) === value) return 0;
      const valueStr = value.toString();
      if (valueStr.includes('.')) {
          return valueStr.split('.')[1].length;
      }
      return 0;
  }
  \<close>
\<close>

definition countDecimals :: "number \<Rightarrow> nat" where
  "countDecimals v =
     (if isInteger v then 0
      else let valueStr = numberToString v
           in if CHR ''.'' \<in> set valueStr then length (splitAt CHR ''.'' valueStr ! 1)
              else 0)"

text \<open>
  \<^verbatim>\<open>
  function adjustPriceToTickSize(price: number, tickSize: number): number {
      const tickSizeDecimals = countDecimals(tickSize);
      const priceMultiplier = Math.pow(10, tickSizeDecimals);
      const adjustedPrice =
          Math.floor(price * priceMultiplier / (tickSize * priceMultiplier)) * tickSize;
      return parseFloat(adjustedPrice.toFixed(tickSizeDecimals));
  }
  \<close>
  \<open>adjustQuantityToLotSize\<close> is the same computation on the quantity and the step size.
  The arguments are doubles, and so is the result of every operation; the count of
  decimals is read off the printed size, and the last line parses the decimal that
  \<open>toFixed\<close> prints.
\<close>

definition adjustPriceToTickSize :: "number \<Rightarrow> number \<Rightarrow> number" where
  "adjustPriceToTickSize price tickSize =
     (let tickSizeDecimals = countDecimals tickSize;
          priceMultiplier = fl (10 ^ tickSizeDecimals);
          adjustedPrice =
            fl (of_int \<lfloor>fl (fl (fl price * priceMultiplier)
                             / fl (fl tickSize * priceMultiplier))\<rfloor> * fl tickSize)
      in toFixed adjustedPrice tickSizeDecimals)"

definition adjustQuantityToLotSize :: "number \<Rightarrow> number \<Rightarrow> number" where
  "adjustQuantityToLotSize quantity stepSize =
     (let stepSizeDecimals = countDecimals stepSize;
          multiplier = fl (10 ^ stepSizeDecimals);
          adjustedQuantity =
            fl (of_int \<lfloor>fl (fl (fl quantity * multiplier)
                             / fl (fl stepSize * multiplier))\<rfloor> * fl stepSize)
      in toFixed adjustedQuantity stepSizeDecimals)"


text \<open>\<^verbatim>\<open>haystack.includes(needle)\<close> on strings.\<close>

fun startsWith :: "string \<Rightarrow> string \<Rightarrow> bool" where
  "startsWith hay [] = True"
| "startsWith [] (c # cs) = False"
| "startsWith (h # hs) (c # cs) = (h = c \<and> startsWith hs cs)"

fun strIncludes :: "string \<Rightarrow> string \<Rightarrow> bool" where
  "strIncludes [] needle = (needle = [])"
| "strIncludes (h # hs) needle = (startsWith (h # hs) needle \<or> strIncludes hs needle)"

section \<open>Data model\<close>

text \<open>
  \<^verbatim>\<open>class CustomError extends Error { status: number; constructor(message, status = 500) }\<close>
  Every failure of the service is a value of this type. In the records below a field
  name that the code uses in several places carries a prefix (\<open>orderId\<close> is the
  \<open>id\<close> of an order, \<open>cexStatus\<close> the \<open>status\<close> of an exchange response).
\<close>

datatype customError = CustomError (message: string) (httpStatus: nat)

datatype orderType = BUY | SELL

datatype executionType = MARKET | LIMIT

text \<open>A row of \<open>crypto_balances\<close>; the row is addressed by (userId, tokenSymbol).\<close>

record cryptoBalance =
  availableBalance :: number
  reservedBalance :: number

record marketPair =
  baseAsset :: string
  quoteAsset :: string

text \<open>
  A row of \<open>trading_orders\<close>. The status column holds text: the service writes
  \<open>PENDING\<close>, \<open>PLACED\<close>, \<open>FILLED\<close> and \<open>CANCELLED\<close>, and filters on the
  exchange's words as well.
\<close>

record tradingOrder =
  orderId :: int
  userId :: int
  marketPairId :: int
  orderType :: orderType
  executionType :: executionType
  price :: "number option"
  quantity :: number
  status :: string
  externalOrderId :: "string option"

text \<open>A row of \<open>trade_history\<close>; \<open>total\<close>, \<open>fee\<close> and \<open>feeCurrency\<close> may be left unset by the writer.\<close>

record tradeHistory =
  tradeUserId :: int
  tradeOrderId :: int
  tradeMarketPairId :: int
  tradeBaseAsset :: string
  tradeQuoteAsset :: string
  tradeQuantity :: number
  tradePrice :: number
  total :: "number option"
  fee :: "number option"
  feeCurrency :: "string option"
  externalTradeId :: "string option"

record syncDetails =
  syncUserId :: int
  syncBaseAsset :: string
  syncQuoteAsset :: string
  baseAmount :: number
  quoteAmount :: number
  syncPrice :: number
  syncQuantity :: number
  syncFee :: number
  syncOrderId :: int
  tradeHistoryId :: int

text \<open>The database: the four tables the trading core reads and writes.\<close>

record db =
  balances :: "int \<times> string \<Rightarrow> cryptoBalance option"
  orders :: "tradingOrder list"
  marketPairs :: "int \<Rightarrow> marketPair option"
  trades :: "tradeHistory list"

text \<open>
  \<^verbatim>\<open>interface CEXOrderResponse { orderId: string; status: string; executedQty?: string; price?: string }\<close>
  The optional fields are numbers in text; an absent or empty field is \<open>None\<close>.
\<close>

record cexOrderResponse =
  cexOrderId :: string
  cexStatus :: string
  executedQty :: "number option"
  cexPrice :: "number option"

text \<open>
  What the adapter reads of a failed HTTP call: \<^verbatim>\<open>error.response?.status\<close>,
  \<^verbatim>\<open>error.response?.data?.code\<close> and \<^verbatim>\<open>error.response?.data?.msg\<close>.
\<close>

record httpFailure =
  responseStatus :: "nat option"
  responseCode :: "int option"
  responseMsg :: "string option"

text \<open>The price filter and lot-size filter of the exchange's symbol information.\<close>

record symbolInfo =
  tickSize :: number
  stepSize :: number

text \<open>
  The collaborators outside the service. The exchange answers each request with a
  response or with a failed call. Of the persistence library only the wording of one
  error is left open: the message of the validation error it raises for a trade-history
  row that leaves a \<open>NOT NULL\<close> column unset.
\<close>

record env =
  tickerPrice :: "string \<Rightarrow> string + number option"
  getSymbolInfo :: "string \<Rightarrow> symbolInfo option"
  exchangePlace ::
    "orderType \<Rightarrow> string \<Rightarrow> executionType \<Rightarrow> number option \<Rightarrow> number \<Rightarrow> httpFailure + cexOrderResponse"
  exchangeStatus :: "string option \<Rightarrow> string option \<Rightarrow> httpFailure + cexOrderResponse"
  exchangeCancel :: "string option \<Rightarrow> string \<Rightarrow> httpFailure + cexOrderResponse"
  notNullViolation :: "tradeHistory \<Rightarrow> string"

section \<open>cexService: the exchange adapter\<close>

text \<open>\<^verbatim>\<open>error.response?.data?.msg || fallback\<close> and \<^verbatim>\<open>error.response?.status || 500\<close>.\<close>

definition msgOr :: "httpFailure \<Rightarrow> string \<Rightarrow> string" where
  "msgOr e fallback =
     (case responseMsg e of None \<Rightarrow> fallback | Some m \<Rightarrow> if m = [] then fallback else m)"

definition statusOr500 :: "httpFailure \<Rightarrow> nat" where
  "statusOr500 e =
     (case responseStatus e of None \<Rightarrow> 500 | Some s \<Rightarrow> if s = 0 then 500 else s)"

definition placeOrderOnCEX ::
  "env \<Rightarrow> orderType \<Rightarrow> string \<Rightarrow> executionType \<Rightarrow> number option \<Rightarrow> number
     \<Rightarrow> customError + cexOrderResponse" where
  "placeOrderOnCEX ev ot symbol et p q =
     (case exchangePlace ev ot symbol et p q of
        Inr response \<Rightarrow> Inr response
      | Inl e \<Rightarrow> Inl (CustomError (msgOr e ''Failed to place order on Binance'') (statusOr500 e)))"

definition getOrderStatusFromCEX ::
  "env \<Rightarrow> string option \<Rightarrow> string option \<Rightarrow> customError + cexOrderResponse" where
  "getOrderStatusFromCEX ev extId symbol =
     (case exchangeStatus ev extId symbol of
        Inr response \<Rightarrow> Inr response
      | Inl e \<Rightarrow>
          Inl (CustomError (msgOr e ''Failed to fetch order status from Binance'') (statusOr500 e)))"

text \<open>
  \<^verbatim>\<open>
  } catch (error) {
      if (error.response?.data?.code === -2011) {  // Unknown order
          throw new CustomError("Order not found or already executed", 404);
      } else if (error.response?.data?.code === -2013) {  // Order does not exist
          throw new CustomError("Order already finished (filled or canceled)", 404);
      }
      throw new CustomError(
          error.response?.data?.msg || "Failed to cancel order on Binance",
          error.response?.status || 500);
  }
  \<close>
\<close>

definition cancelOrderOnCEX ::
  "env \<Rightarrow> string option \<Rightarrow> string \<Rightarrow> customError + cexOrderResponse" where
  "cancelOrderOnCEX ev extId symbol =
     (case exchangeCancel ev extId symbol of
        Inr response \<Rightarrow> Inr response
      | Inl e \<Rightarrow>
          if responseCode e = Some (- 2011) then
            Inl (CustomError ''Order not found or already executed'' 404)
          else if responseCode e = Some (- 2013) then
            Inl (CustomError ''Order already finished (filled or canceled)'' 404)
          else Inl (CustomError (msgOr e ''Failed to cancel order on Binance'') (statusOr500 e)))"


section \<open>tradingServiceUtils\<close>

definition TRADING_FEE :: number where
  "TRADING_FEE = 0.001"

text \<open>
  \<open>validateUserBalance\<close> checks its arguments, then reserves: for BUY the trade amount
  plus the fee in the quote asset, for SELL the quantity in the base asset.
  \<^verbatim>\<open>
  const tradeAmount = validPrice * validQuantity;
  const feeAmount = tradeAmount * TRADING_FEE;
  const totalAmount = tradeAmount + feeAmount;
  const balance = await CryptoBalance.findOne({ where: { userId, tokenSymbol: marketPair.quoteAsset }, transaction });
  if (!balance) throw new CustomError(`Insufficient ${marketPair.quoteAsset} balance`, 400);
  const availableBalance = parseFloat(balance.availableBalance || '0');
  if (availableBalance < totalAmount)
      throw new CustomError(`Insufficient ${marketPair.quoteAsset} balance. Required: ${totalAmount}, Available: ${availableBalance}`, 400);
  balance.availableBalance = availableBalance - totalAmount;
  balance.reservedBalance = parseFloat(balance.reservedBalance || '0') + totalAmount;
  await balance.save({ transaction });
  \<close>
  The function works on the rows of the open transaction \<open>tx\<close> and returns them
  updated; a throw leaves nothing written.
\<close>

definition reserveRow :: "int \<Rightarrow> string \<Rightarrow> number \<Rightarrow> db \<Rightarrow> customError + db" where
  "reserveRow uid token amount tx =
     (case balances tx (uid, token) of
        None \<Rightarrow> Inl (CustomError (''Insufficient '' @ token @ '' balance'') 400)
      | Some balance \<Rightarrow>
          if availableBalance balance < amount then
            Inl (CustomError
                  (''Insufficient '' @ token @ '' balance. Required: '' @ numberToString amount
                     @ '', Available: '' @ numberToString (availableBalance balance)) 400)
          else
            Inr (tx\<lparr>balances := (balances tx)((uid, token) \<mapsto>
                   balance\<lparr>availableBalance := availableBalance balance - amount,
                           reservedBalance := reservedBalance balance + amount\<rparr>)\<rparr>))"

definition validateUserBalance ::
  "int \<Rightarrow> marketPair \<Rightarrow> orderType \<Rightarrow> number \<Rightarrow> number \<Rightarrow> db \<Rightarrow> customError + db" where
  "validateUserBalance uid pair ot validPrice validQuantity tx =
     (if uid = 0 then Inl (CustomError ''Invalid parameters for balance validation'' 400)
      else if validPrice \<le> 0 then Inl (CustomError ''Invalid price for order'' 400)
      else if validQuantity \<le> 0 then Inl (CustomError ''Invalid quantity'' 400)
      else (case ot of
              BUY \<Rightarrow>
                (let tradeAmount = validPrice * validQuantity;
                     feeAmount = tradeAmount * TRADING_FEE;
                     totalAmount = tradeAmount + feeAmount
                 in reserveRow uid (quoteAsset pair) totalAmount tx)
            | SELL \<Rightarrow> reserveRow uid (baseAsset pair) validQuantity tx))"

text \<open>
  \<^verbatim>\<open>TradingOrder.findByPk(orderId)\<close> and \<^verbatim>\<open>TradeHistory.create(row)\<close>. The model
  of the trade history declares its columns:
  \<^verbatim>\<open>
  total:       { type: DataTypes.DECIMAL(18, 8), allowNull: false, ... },
  fee:         { type: DataTypes.DECIMAL(18, 8), allowNull: false, ... },
  feeCurrency: { type: DataTypes.STRING, allowNull: false, ... },
  \<close>
  None of the three has a default, so a row that leaves one of them unset is refused with
  a validation error and nothing is written. The other columns without a default are set
  by every writer.
\<close>

definition findByPk :: "db \<Rightarrow> int \<Rightarrow> tradingOrder option" where
  "findByPk d oid = find (\<lambda>ord. orderId ord = oid) (orders d)"

definition tradeHistoryCreate :: "env \<Rightarrow> tradeHistory \<Rightarrow> db \<Rightarrow> string + db" where
  "tradeHistoryCreate ev row tx =
     (if total row = None \<or> fee row = None \<or> feeCurrency row = None
      then Inl (notNullViolation ev row)
      else Inr (tx\<lparr>trades := trades tx @ [row]\<rparr>))"

text \<open>
  \<open>createTradeHistory\<close> computes both legs of an executed trade and records it.
  \<^verbatim>\<open>
  if (order.orderType === "BUY") {
      total = effectivePrice * quantity;  fee = total * TRADING_FEE;
      baseAmount = quantity;              quoteAmount = -(total + fee);
  } else {
      total = effectivePrice * quantity;  fee = total * TRADING_FEE;
      baseAmount = -quantity;             quoteAmount = total - fee;
  }
  \<close>
\<close>

definition createTradeHistory ::
  "env \<Rightarrow> int \<Rightarrow> int \<Rightarrow> int \<Rightarrow> string \<Rightarrow> string \<Rightarrow> number \<Rightarrow> number \<Rightarrow> string option \<Rightarrow> db
     \<Rightarrow> customError + syncDetails \<times> db" where
  "createTradeHistory ev uid pairId oid base quote p q extTradeId tx =
     (case findByPk tx oid of
        None \<Rightarrow> Inl (CustomError ''Order not found when creating trade history'' 404)
      | Some ord \<Rightarrow>
          (case (if p \<le> 0
                 then (case price ord of
                         None \<Rightarrow> None
                       | Some op \<Rightarrow> if 0 < op then Some op else None)
                 else Some p) of
             None \<Rightarrow> Inl (CustomError ''Cannot process trade without a valid price'' 500)
           | Some effectivePrice \<Rightarrow>
               (let tot = effectivePrice * q;
                    fe = tot * TRADING_FEE;
                    baseAmt = (if orderType ord = BUY then q else - q);
                    quoteAmt = (if orderType ord = BUY then - (tot + fe) else tot - fe)
                in case tradeHistoryCreate ev
                          \<lparr>tradeUserId = uid, tradeOrderId = oid, tradeMarketPairId = pairId,
                           tradeBaseAsset = base, tradeQuoteAsset = quote, tradeQuantity = q,
                           tradePrice = effectivePrice, total = Some tot, fee = Some fe,
                           feeCurrency = Some ''USDT'', externalTradeId = extTradeId\<rparr> tx of
                     Inl msg \<Rightarrow> Inl (CustomError ''Failed to create trade history'' 500)
                   | Inr tx' \<Rightarrow>
                       Inr (\<lparr>syncUserId = uid, syncBaseAsset = base, syncQuoteAsset = quote,
                             baseAmount = baseAmt, quoteAmount = quoteAmt,
                             syncPrice = effectivePrice, syncQuantity = q, syncFee = fe,
                             syncOrderId = oid, tradeHistoryId = int (length (trades tx'))\<rparr>,
                            tx'))))"


section \<open>tradingService\<close>

text \<open>
  \<^verbatim>\<open>
  const [balance, created] = await CryptoBalance.findOrCreate({
      where: { userId, tokenSymbol }, defaults: { availableBalance: 0, reservedBalance: 0 }, transaction });
  balance.availableBalance = parseFloat(balance.availableBalance) + amount;
  await balance.save({ transaction });
  \<close>
\<close>

definition updateBalance :: "int \<Rightarrow> string \<Rightarrow> number \<Rightarrow> db \<Rightarrow> db" where
  "updateBalance uid tokenSymbol amount tx =
     (let balance = (case balances tx (uid, tokenSymbol) of
                       None \<Rightarrow> \<lparr>availableBalance = 0, reservedBalance = 0\<rparr>
                     | Some b \<Rightarrow> b)
      in tx\<lparr>balances := (balances tx)((uid, tokenSymbol) \<mapsto>
               balance\<lparr>availableBalance := availableBalance balance + amount\<rparr>)\<rparr>)"

text \<open>\<open>order.save\<close> writes the row with the order's id; \<open>TradingOrder.create\<close> adds a row with a fresh id.\<close>

definition saveOrder :: "tradingOrder \<Rightarrow> db \<Rightarrow> db" where
  "saveOrder ord tx =
     tx\<lparr>orders := map (\<lambda>row. if orderId row = orderId ord then ord else row) (orders tx)\<rparr>"

definition freshOrderId :: "db \<Rightarrow> int" where
  "freshOrderId tx = foldr (\<lambda>row m. max (orderId row) m) (orders tx) 0 + 1"

subsection \<open>createOrder\<close>

text \<open>
  Step 1, the checks before the \<open>try\<close> block. The user id and the pair id are integers,
  the side and the execution style are of their enumerations.
  \<^verbatim>\<open>
  if (!userId || ...) throw new CustomError('Invalid or missing userId', 400);
  if (!marketPairId || ...) throw new CustomError('Market pair not found', 404);
  if (executionType === 'LIMIT' && (!price || price <= 0)) throw new CustomError('Price required for LIMIT orders', 400);
  if (!quantity || quantity <= 0) throw new CustomError('Invalid quantity', 400);
  \<close>
\<close>

definition validateInput ::
  "int \<Rightarrow> int \<Rightarrow> executionType \<Rightarrow> number option \<Rightarrow> number \<Rightarrow> customError option" where
  "validateInput uid pairId et p q =
     (if uid = 0 then Some (CustomError ''Invalid or missing userId'' 400)
      else if pairId = 0 then Some (CustomError ''Market pair not found'' 404)
      else if et = LIMIT \<and> (case p of None \<Rightarrow> True | Some v \<Rightarrow> v \<le> 0)
        then Some (CustomError ''Price required for LIMIT orders'' 400)
      else if q \<le> 0 then Some (CustomError ''Invalid quantity'' 400)
      else None)"

text \<open>
  Steps 3 to 5: the market pair, the market price for a MARKET order, the trading rules,
  and the price and quantity adjusted to them.
  \<^verbatim>\<open>
  adjustedQuantity = adjustQuantityToLotSize(quantity, stepSize);
  adjustedPrice = executionType === 'LIMIT' ? adjustPriceToTickSize(executionPrice, tickSize) : executionPrice;
  \<close>
\<close>

record prepared =
  prepPair :: marketPair
  prepSymbol :: string
  adjustedPrice :: number
  adjustedQuantity :: number

definition wrapPlace :: "string \<Rightarrow> customError" where
  "wrapPlace msg = CustomError (''Failed to place order: '' @ msg) 500"

definition prepareOrder ::
  "env \<Rightarrow> int \<Rightarrow> executionType \<Rightarrow> number option \<Rightarrow> number \<Rightarrow> db \<Rightarrow> customError + prepared" where
  "prepareOrder ev pairId et p q d =
     (case marketPairs d pairId of
        None \<Rightarrow> Inl (CustomError ''Market pair not found'' 404)
      | Some pair \<Rightarrow>
          (let symbol = baseAsset pair @ quoteAsset pair
           in case (if et = MARKET
                    then (case tickerPrice ev symbol of
                            Inl msg \<Rightarrow> Inl (wrapPlace msg)
                          | Inr None \<Rightarrow> Inl (CustomError (''Could not get price for '' @ symbol) 500)
                          | Inr (Some v) \<Rightarrow> Inr v)
                    else Inr (case p of None \<Rightarrow> 0 | Some v \<Rightarrow> v)) of
                Inl err \<Rightarrow> Inl err
              | Inr executionPrice \<Rightarrow>
                  (case getSymbolInfo ev symbol of
                     None \<Rightarrow> Inl (CustomError ''Binance symbol info missing'' 500)
                   | Some info \<Rightarrow>
                       Inr \<lparr>prepPair = pair, prepSymbol = symbol,
                            adjustedPrice =
                              (if et = LIMIT then adjustPriceToTickSize executionPrice (tickSize info)
                               else executionPrice),
                            adjustedQuantity = adjustQuantityToLotSize q (stepSize info)\<rparr>)))"

text \<open>
  Steps 9 to 13, inside the transaction, after the reservation and the PENDING row;
  \<open>settlementAmounts\<close> is the pair \<open>baseAmount\<close>, \<open>quoteAmount\<close> of step 10.
  \<^verbatim>\<open>
  const cexResponse = await placeOrderOnCEX(orderType, symbol, executionType,
      executionType === 'LIMIT' ? adjustedPrice : null, adjustedQuantity);
  newOrder.externalOrderId = cexResponse.orderId;
  newOrder.status = "PLACED";
  if (cexResponse.status === "FILLED") {
      newOrder.status = "FILLED";
      const executedQty = parseFloat(cexResponse.executedQty || String(adjustedQuantity));
      const executedPrice = parseFloat(cexResponse.price || String(adjustedPrice));
      const baseAmount = orderType === 'BUY' ? executedQty : -executedQty;
      const quoteAmount = orderType === 'BUY' ? -executedQty * executedPrice : executedQty * executedPrice;
      await TradeHistory.create({ userId, orderId: newOrder.id, marketPairId: marketPair.id,
          baseAsset, quoteAsset, quantity: executedQty, price: executedPrice,
          externalTradeId: cexResponse.orderId }, { transaction });
      await updateBalance(userId, marketPair.baseAsset, baseAmount, transaction);
      await updateBalance(userId, marketPair.quoteAsset, quoteAmount, transaction);
  }
  await newOrder.save({ transaction });
  \<close>
\<close>

definition settlementAmounts :: "orderType \<Rightarrow> number \<Rightarrow> number \<Rightarrow> number \<times> number" where
  "settlementAmounts ot executedQuantity executedPrice =
     (if ot = BUY then executedQuantity else - executedQuantity,
      if ot = BUY then - executedQuantity * executedPrice else executedQuantity * executedPrice)"

definition placeAndSettle ::
  "env \<Rightarrow> int \<Rightarrow> int \<Rightarrow> orderType \<Rightarrow> executionType \<Rightarrow> prepared \<Rightarrow> tradingOrder \<Rightarrow> db
     \<Rightarrow> customError + tradingOrder \<times> db" where
  "placeAndSettle ev uid pairId ot et pr newOrder tx =
     (case placeOrderOnCEX ev ot (prepSymbol pr) et
             (if et = LIMIT then Some (adjustedPrice pr) else None) (adjustedQuantity pr) of
        Inl err \<Rightarrow> Inl err
      | Inr cexResponse \<Rightarrow>
          (let placed = newOrder\<lparr>externalOrderId := Some (cexOrderId cexResponse),
                                 status := ''PLACED''\<rparr>
           in if cexStatus cexResponse = ''FILLED'' then
                (let filled = placed\<lparr>status := ''FILLED''\<rparr>;
                     executedQuantity =
                       (case executedQty cexResponse of None \<Rightarrow> adjustedQuantity pr | Some v \<Rightarrow> v);
                     executedPrice =
                       (case cexPrice cexResponse of None \<Rightarrow> adjustedPrice pr | Some v \<Rightarrow> v);
                     (baseAmt, quoteAmt) = settlementAmounts ot executedQuantity executedPrice
                 in case tradeHistoryCreate ev
                           \<lparr>tradeUserId = uid, tradeOrderId = orderId newOrder,
                            tradeMarketPairId = pairId,
                            tradeBaseAsset = baseAsset (prepPair pr),
                            tradeQuoteAsset = quoteAsset (prepPair pr),
                            tradeQuantity = executedQuantity, tradePrice = executedPrice,
                            total = None, fee = None, feeCurrency = None,
                            externalTradeId = Some (cexOrderId cexResponse)\<rparr> tx of
                      Inl msg \<Rightarrow> Inl (wrapPlace msg)
                    | Inr tx1 \<Rightarrow>
                        (let tx2 = updateBalance uid (baseAsset (prepPair pr)) baseAmt tx1;
                             tx3 = updateBalance uid (quoteAsset (prepPair pr)) quoteAmt tx2
                         in Inr (filled, saveOrder filled tx3)))
              else Inr (placed, saveOrder placed tx)))"

text \<open>
  The whole operation. Every write goes to the transaction; the \<open>catch\<close> block rolls it
  back, so a failure leaves the database as it was, and the last step commits.
\<close>

definition createOrder ::
  "env \<Rightarrow> int \<Rightarrow> int \<Rightarrow> orderType \<Rightarrow> executionType \<Rightarrow> number option \<Rightarrow> number \<Rightarrow> db
     \<Rightarrow> (customError + tradingOrder) \<times> db" where
  "createOrder ev uid pairId ot et p q d =
     (case validateInput uid pairId et p q of
        Some err \<Rightarrow> (Inl err, d)
      | None \<Rightarrow>
          (case prepareOrder ev pairId et p q d of
             Inl err \<Rightarrow> (Inl err, d)
           | Inr pr \<Rightarrow>
               (case validateUserBalance uid (prepPair pr) ot (adjustedPrice pr) (adjustedQuantity pr) d of
                  Inl err \<Rightarrow> (Inl err, d)
                | Inr tx \<Rightarrow>
                    (let newOrder =
                           \<lparr>orderId = freshOrderId tx, userId = uid, marketPairId = pairId,
                            orderType = ot, executionType = et, price = Some (adjustedPrice pr),
                            quantity = adjustedQuantity pr, status = ''PENDING'',
                            externalOrderId = None\<rparr>;
                         tx' = tx\<lparr>orders := orders tx @ [newOrder]\<rparr>
                     in case placeAndSettle ev uid pairId ot et pr newOrder tx' of
                          Inl err \<Rightarrow> (Inl err, d)
                        | Inr (ord, committed) \<Rightarrow> (Inr ord, committed)))))"

subsection \<open>cancelOrder\<close>

text \<open>
  \<^verbatim>\<open>
  const order = await TradingOrder.findOne({ where: { id: orderId, userId }, include: [{ model: MarketPair }] });
  if (!order) throw new CustomError("Order not found or access denied", 404);
  if (order.status !== "PLACED") throw new CustomError("Only active orders can be canceled", 400);
  \<close>
\<close>

definition findOrder :: "db \<Rightarrow> int \<Rightarrow> int \<Rightarrow> tradingOrder option" where
  "findOrder d oid uid = find (\<lambda>ord. orderId ord = oid \<and> userId ord = uid) (orders d)"

text \<open>
  Step 4 of \<open>cancelOrder\<close>.
  \<^verbatim>\<open>
  const token = order.orderType === "BUY" ? order.marketPair.quoteAsset : order.marketPair.baseAsset;
  const releaseAmount = order.orderType === "BUY" ? order.price * order.quantity : order.quantity;
  const balance = await CryptoBalance.findOne({ where: { userId, tokenSymbol: token }, transaction });
  if (balance) {
      balance.reservedBalance = parseFloat(balance.reservedBalance) - releaseAmount;
      await balance.save({ transaction });
  }
  \<close>
  A null price counts as zero in the product.
\<close>

definition releaseToken :: "tradingOrder \<Rightarrow> marketPair \<Rightarrow> string" where
  "releaseToken ord pair = (if orderType ord = BUY then quoteAsset pair else baseAsset pair)"

definition releaseAmount :: "tradingOrder \<Rightarrow> number" where
  "releaseAmount ord =
     (if orderType ord = BUY
      then (case price ord of None \<Rightarrow> 0 | Some v \<Rightarrow> v) * quantity ord
      else quantity ord)"

definition releaseReserved :: "int \<Rightarrow> tradingOrder \<Rightarrow> marketPair \<Rightarrow> db \<Rightarrow> db" where
  "releaseReserved uid ord pair tx =
     (case balances tx (uid, releaseToken ord pair) of
        None \<Rightarrow> tx
      | Some balance \<Rightarrow>
          tx\<lparr>balances := (balances tx)((uid, releaseToken ord pair) \<mapsto>
                balance\<lparr>reservedBalance := reservedBalance balance - releaseAmount ord\<rparr>)\<rparr>)"

text \<open>
  Step 3 and step 4: the cancel request, then the release.
  \<^verbatim>\<open>
  const cancelResponse = await cancelOrderOnCEX(order.externalOrderId, symbol);
  if (cancelResponse.status !== "CANCELED") throw new CustomError("CEX did not confirm cancellation", 502);
  order.status = "CANCELLED";
  await order.save({ transaction });
  \<close>
\<close>

definition cancelOnExchange ::
  "env \<Rightarrow> int \<Rightarrow> tradingOrder \<Rightarrow> marketPair \<Rightarrow> db \<Rightarrow> (customError + string \<times> tradingOrder) \<times> db" where
  "cancelOnExchange ev uid ord pair d =
     (case cancelOrderOnCEX ev (externalOrderId ord) (baseAsset pair @ quoteAsset pair) of
        Inl err \<Rightarrow> (Inl err, d)
      | Inr cancelResponse \<Rightarrow>
          if cexStatus cancelResponse \<noteq> ''CANCELED''
          then (Inl (CustomError ''CEX did not confirm cancellation'' 502), d)
          else (let cancelled = ord\<lparr>status := ''CANCELLED''\<rparr>
                in (Inr (''Order canceled successfully'', cancelled),
                    releaseReserved uid cancelled pair (saveOrder cancelled d))))"

text \<open>
  The whole operation: the lookup, step 2 (the status query, with its own \<open>catch\<close>), then
  the cancel request. The error of the status query is the adapter's \<open>CustomError\<close>, which
  has no \<open>response\<close> field, so only its message is tested.
  \<^verbatim>\<open>
  try {
      const cexStatus = await getOrderStatusFromCEX(order.externalOrderId, symbol);
      if (cexStatus.status === "FILLED") {
          order.status = "FILLED"; await order.save({ transaction }); await transaction.commit();
          return { message: "Order already filled", order };
      }
      if (cexStatus.status === "CANCELED") {
          order.status = "CANCELLED"; await order.save({ transaction }); await transaction.commit();
          return { message: "Order already canceled", order };
      }
  } catch (err) {
      if (err.response?.data?.code === -2013 || err.message.includes("does not exist")) {
          order.status = "CANCELLED"; await order.save({ transaction }); await transaction.commit();
          return { message: "Order not found on Binance, marked canceled", order };
      }
      throw err;
  }
  \<close>
\<close>

definition markOrder :: "string \<Rightarrow> string \<Rightarrow> tradingOrder \<Rightarrow> db \<Rightarrow> (customError + string \<times> tradingOrder) \<times> db" where
  "markOrder st msg ord d = (Inr (msg, ord\<lparr>status := st\<rparr>), saveOrder (ord\<lparr>status := st\<rparr>) d)"

definition cancelOrder :: "env \<Rightarrow> int \<Rightarrow> int \<Rightarrow> db \<Rightarrow> (customError + string \<times> tradingOrder) \<times> db" where
  "cancelOrder ev uid oid d =
     (case findOrder d oid uid of
        None \<Rightarrow> (Inl (CustomError ''Order not found or access denied'' 404), d)
      | Some ord \<Rightarrow>
          if status ord \<noteq> ''PLACED''
          then (Inl (CustomError ''Only active orders can be canceled'' 400), d)
          else (case marketPairs d (marketPairId ord) of
                  None \<Rightarrow>
                    (Inl (CustomError
                           ''Failed to cancel order: Cannot read properties of null (reading 'baseAsset')''
                           500), d)
                | Some pair \<Rightarrow>
                    (case getOrderStatusFromCEX ev (externalOrderId ord)
                            (Some (baseAsset pair @ quoteAsset pair)) of
                       Inr cexState \<Rightarrow>
                         if cexStatus cexState = ''FILLED''
                           then markOrder ''FILLED'' ''Order already filled'' ord d
                         else if cexStatus cexState = ''CANCELED''
                           then markOrder ''CANCELLED'' ''Order already canceled'' ord d
                         else cancelOnExchange ev uid ord pair d
                     | Inl err \<Rightarrow>
                         if strIncludes (message err) ''does not exist''
                         then markOrder ''CANCELLED'' ''Order not found on Binance, marked canceled'' ord d
                         else (Inl err, d))))"


section \<open>Fixtures\<close>

text \<open>
  The records of the repository's test fixtures: the pair BTC/USDT with id 1, user 1 with
  10000 USDT available and 5000 reserved and with 1 BTC, the PLACED limit order to buy
  0.1 BTC at 50000, an exchange with tick size 0.01 and step size 0.00001 that reports
  the order as NEW and confirms a cancel request.
\<close>

definition btcUsdt :: marketPair where
  "btcUsdt = \<lparr>baseAsset = ''BTC'', quoteAsset = ''USDT''\<rparr>"

definition orderRecord :: tradingOrder where
  "orderRecord =
     \<lparr>orderId = 1, userId = 1, marketPairId = 1, orderType = BUY, executionType = LIMIT,
      price = Some 50000, quantity = 0.1, status = ''PLACED'',
      externalOrderId = Some ''12345''\<rparr>"

definition testBalances :: "int \<times> string \<Rightarrow> cryptoBalance option" where
  "testBalances =
     [(1, ''USDT'') \<mapsto> \<lparr>availableBalance = 10000, reservedBalance = 5000\<rparr>,
      (1, ''BTC'') \<mapsto> \<lparr>availableBalance = 1, reservedBalance = 0\<rparr>]"

definition testDb :: db where
  "testDb = \<lparr>balances = testBalances, orders = [orderRecord],
             marketPairs = [1 \<mapsto> btcUsdt], trades = []\<rparr>"

definition cexReply :: "string \<Rightarrow> cexOrderResponse" where
  "cexReply st = \<lparr>cexOrderId = ''12345'', cexStatus = st, executedQty = Some 0.1,
                 cexPrice = Some 50000\<rparr>"

definition testEnv :: env where
  "testEnv =
     \<lparr>tickerPrice = (\<lambda>symbol. Inr (Some 50000)),
      getSymbolInfo = (\<lambda>symbol. Some \<lparr>tickSize = 0.01, stepSize = 0.00001\<rparr>),
      exchangePlace = (\<lambda>ot symbol et p q. Inr (cexReply ''FILLED'')),
      exchangeStatus = (\<lambda>extId symbol. Inr (cexReply ''NEW'')),
      exchangeCancel = (\<lambda>extId symbol. Inr (cexReply ''CANCELED'')),
      notNullViolation = (\<lambda>row. ''notNull Violation: tradeHistory.total cannot be null'')\<rparr>"

text \<open>An exchange call that fails with the given error code, HTTP status 400.\<close>

definition failsWith :: "int \<Rightarrow> string \<Rightarrow> httpFailure" where
  "failsWith code msg = \<lparr>responseStatus = Some 400, responseCode = Some code, responseMsg = Some msg\<rparr>"



definition sellDb :: db where
  "sellDb = testDb\<lparr>orders := [orderRecord\<lparr>orderType := SELL\<rparr>]\<rparr>"

text \<open>The exchange of the fixture, refusing every submission.\<close>

definition refusingEnv :: env where
  "refusingEnv =
     testEnv\<lparr>exchangePlace := (\<lambda>ot symbol et p q. Inl (failsWith (- 2010) ''Order would trigger immediately.''))\<rparr>"

text \<open>
  An account before any order, and the same account once the limit order of the fixture
  has been reserved for and placed: 5005 USDT moved from available to reserved.
\<close>

definition openingDb :: db where
  "openingDb = \<lparr>balances = [(1, ''USDT'') \<mapsto> \<lparr>availableBalance = 10000, reservedBalance = 0\<rparr>],
                orders = [], marketPairs = [1 \<mapsto> btcUsdt], trades = []\<rparr>"

definition placedDb :: db where
  "placedDb = \<lparr>balances = [(1, ''USDT'') \<mapsto> \<lparr>availableBalance = 4995, reservedBalance = 5005\<rparr>],
               orders = [orderRecord], marketPairs = [1 \<mapsto> btcUsdt], trades = []\<rparr>"

definition withStatus :: "string \<Rightarrow> db" where
  "withStatus st = placedDb\<lparr>orders := [orderRecord\<lparr>status := st\<rparr>]\<rparr>"

text \<open>
  Exchanges that differ from the fixture's in one answer: the submission rests on the book
  (NEW), the status query reports CANCELED, the status query fails with code -2013, the
  cancel request fails with code -2011, the cancel request fails with code -2013.
\<close>

definition restingEnv :: env where
  "restingEnv = testEnv\<lparr>exchangePlace := (\<lambda>ot symbol et p q. Inr (cexReply ''NEW''))\<rparr>"

definition canceledEnv :: env where
  "canceledEnv = testEnv\<lparr>exchangeStatus := (\<lambda>extId symbol. Inr (cexReply ''CANCELED''))\<rparr>"

definition goneEnv :: env where
  "goneEnv = testEnv\<lparr>exchangeStatus := (\<lambda>extId symbol. Inl (failsWith (- 2013) ''Order does not exist.''))\<rparr>"

definition unknownEnv :: env where
  "unknownEnv = testEnv\<lparr>exchangeCancel := (\<lambda>extId symbol. Inl (failsWith (- 2011) ''Unknown order sent.''))\<rparr>"

definition finishedEnv :: env where
  "finishedEnv = testEnv\<lparr>exchangeCancel := (\<lambda>extId symbol. Inl (failsWith (- 2013) ''Order does not exist.''))\<rparr>"

section \<open>Evaluating numbers\<close>

lemma floor_rat_divide_numeral [simp]:
  "\<lfloor>numeral a / numeral b :: rat\<rfloor> = numeral a div numeral b"
  by (metis floor_divide_of_int_eq of_int_numeral)

lemma floor_rat_one_divide_numeral [simp]:
  "\<lfloor>1 / numeral b :: rat\<rfloor> = 1 div numeral b"
  by (metis floor_divide_of_int_eq of_int_1 of_int_numeral)

lemma isInteger_numerals [simp]:
  "isInteger 0" "isInteger 1" "isInteger (numeral a)"
  by (simp_all add: isInteger_def)

lemma isInteger_of_int_divide:
  "isInteger (of_int a / of_int b) \<longleftrightarrow> b = 0 \<or> a mod b = 0"
proof (cases "b = 0")
  case True
  then show ?thesis by (simp add: isInteger_def)
next
  case False
  have "isInteger (of_int a / of_int b) \<longleftrightarrow> (of_int (a div b) :: rat) = of_int a / of_int b"
    by (simp only: isInteger_def floor_divide_of_int_eq)
  also have "\<dots> \<longleftrightarrow> (of_int (a div b * b) :: rat) = of_int a"
    using False by (simp add: field_simps)
  also have "\<dots> \<longleftrightarrow> a div b * b = a"
    by (simp only: of_int_eq_iff)
  also have "\<dots> \<longleftrightarrow> a mod b = 0"
    by (metis add.right_neutral add_left_cancel div_mult_mod_eq)
  finally show ?thesis using False by simp
qed

lemma isInteger_divide_numeral [simp]:
  "isInteger (numeral a / numeral b) \<longleftrightarrow> (numeral a :: int) mod numeral b = 0"
  using isInteger_of_int_divide [of "numeral a" "numeral b"] by simp

lemma isInteger_one_divide_numeral [simp]:
  "isInteger (1 / numeral b) \<longleftrightarrow> (1 :: int) mod numeral b = 0"
  using isInteger_of_int_divide [of 1 "numeral b"] by simp

lemma replicate_numeral: "replicate (numeral k) x = x # replicate (pred_numeral k) x"
  by (simp add: numeral_eq_Suc)

lemmas toStringEval = numberToString_def positiveToString_def decimalPlaces_def
  decimalPlacesFrom.simps stripZeros.simps showNat.simps digitChar_def exponentPart_def
  replicate_numeral

text \<open>The tick size 0.01 and the step size 0.00001 print in plain notation.\<close>

lemma toString_tick: "numberToString (1 / 100) = ''0.01''"
  by (simp add: toStringEval)

lemma toString_step: "numberToString (1 / 100000) = ''0.00001''"
  by (simp add: toStringEval)

lemma countDecimals_tick [simp]: "countDecimals (1 / 100) = 2"
  by (simp add: countDecimals_def toString_tick)

lemma countDecimals_step [simp]: "countDecimals (1 / 100000) = 5"
  by (simp add: countDecimals_def toString_step)

text \<open>A size below \<open>10 ^ -6\<close> prints in exponent notation, which has no decimal point here.\<close>

lemma toString_tiny: "numberToString (1 / 10000000) = ''1e-7''"
  by (simp add: toStringEval)

lemma countDecimals_tiny [simp]: "countDecimals (1 / 10000000) = 0"
  by (simp add: countDecimals_def toString_tiny)

text \<open>Evaluating \<open>fl\<close>: first the exponent, then the rounding of the significand.\<close>

lemmas flExponent = fl_def Let_def binaryExponent_def expUp.simps expDown.simps pow2_def

lemma adjust_steps:
  assumes "countDecimals u = d" and "fl (10 ^ d) = m" and "fl p = p'" and "fl u = u'"
    and "fl (p' * m) = a" and "fl (u' * m) = b" and "fl (a / b) = q" and "\<lfloor>q\<rfloor> = n"
    and "fl (of_int n * u') = x"
  shows "adjustPriceToTickSize p u = toFixed x d"
    and "adjustQuantityToLotSize p u = toFixed x d"
  unfolding adjustPriceToTickSize_def adjustQuantityToLotSize_def Let_def assms by simp_all

section \<open>Normalization\<close>

text \<open>
  The two functions evaluated step by step in binary floating point. With a size of
  \<open>10 ^ -7\<close> the number of decimals counted is 0, the multiplier is 1, and the final
  rounding is to the nearest integer.
\<close>

lemma adjust_tiny:
  "adjustPriceToTickSize (6 / 10) (1 / 10000000) = 1"
  "adjustQuantityToLotSize (6 / 10) (1 / 10000000) = 1"
proof -
  have m: "fl (10 ^ 0) = 1"
    by (simp add: flExponent) (simp add: roundHalfEven_def)
  have p: "fl (6 / 10) = 5404319552844595 / 9007199254740992"
    by (simp add: flExponent) (simp add: roundHalfEven_def)
  have u: "fl (1 / 10000000) = 944473296573929 / 9444732965739290427392"
    by (simp add: flExponent) (simp add: roundHalfEven_def)
  have a: "fl ((5404319552844595 / 9007199254740992) * 1) = 5404319552844595 / 9007199254740992"
    by (simp add: flExponent) (simp add: roundHalfEven_def)
  have b: "fl ((944473296573929 / 9444732965739290427392) * 1) = 944473296573929 / 9444732965739290427392"
    by (simp add: flExponent) (simp add: roundHalfEven_def)
  have q: "fl ((5404319552844595 / 9007199254740992) / (944473296573929 / 9444732965739290427392)) = 6000000"
    by (simp add: flExponent) (simp add: roundHalfEven_def)
  have n: "\<lfloor>6000000 :: rat\<rfloor> = 6000000"
    by simp
  have x: "fl (of_int 6000000 * (944473296573929 / 9444732965739290427392)) = 5404319552844595 / 9007199254740992"
    by (simp add: flExponent) (simp add: roundHalfEven_def)
  note steps = adjust_steps [OF countDecimals_tiny m p u a b q n x]
  show "adjustPriceToTickSize (6 / 10) (1 / 10000000) = 1"
    using steps by (simp add: toFixed_def)
  show "adjustQuantityToLotSize (6 / 10) (1 / 10000000) = 1"
    using steps by (simp add: toFixed_def)
qed

text \<open>The price and the quantity of the fixture lie on the grid and are kept.\<close>

lemma adjust_fixture_price:
  "adjustPriceToTickSize 50000 (1 / 100) = 50000"
proof -
  have m: "fl (10 ^ 2) = 100"
    by (simp add: flExponent) (simp add: roundHalfEven_def)
  have p: "fl 50000 = 50000"
    by (simp add: flExponent) (simp add: roundHalfEven_def)
  have u: "fl (1 / 100) = 5764607523034235 / 576460752303423488"
    by (simp add: flExponent) (simp add: roundHalfEven_def)
  have a: "fl (50000 * 100) = 5000000"
    by (simp add: flExponent) (simp add: roundHalfEven_def)
  have b: "fl ((5764607523034235 / 576460752303423488) * 100) = 1"
    by (simp add: flExponent) (simp add: roundHalfEven_def)
  have q: "fl (5000000 / 1) = 5000000"
    by (simp add: flExponent) (simp add: roundHalfEven_def)
  have n: "\<lfloor>5000000 :: rat\<rfloor> = 5000000"
    by simp
  have x: "fl (of_int 5000000 * (5764607523034235 / 576460752303423488)) = 50000"
    by (simp add: flExponent) (simp add: roundHalfEven_def)
  note steps = adjust_steps [OF countDecimals_tick m p u a b q n x]
  show "adjustPriceToTickSize 50000 (1 / 100) = 50000"
    using steps by (simp add: toFixed_def)
qed

lemma adjust_fixture_quantity:
  "adjustQuantityToLotSize (1 / 10) (1 / 100000) = 1 / 10"
proof -
  have m: "fl (10 ^ 5) = 100000"
    by (simp add: flExponent) (simp add: roundHalfEven_def)
  have p: "fl (1 / 10) = 3602879701896397 / 36028797018963968"
    by (simp add: flExponent) (simp add: roundHalfEven_def)
  have u: "fl (1 / 100000) = 5902958103587057 / 590295810358705651712"
    by (simp add: flExponent) (simp add: roundHalfEven_def)
  have a: "fl ((3602879701896397 / 36028797018963968) * 100000) = 10000"
    by (simp add: flExponent) (simp add: roundHalfEven_def)
  have b: "fl ((5902958103587057 / 590295810358705651712) * 100000) = 1"
    by (simp add: flExponent) (simp add: roundHalfEven_def)
  have q: "fl (10000 / 1) = 10000"
    by (simp add: flExponent) (simp add: roundHalfEven_def)
  have n: "\<lfloor>10000 :: rat\<rfloor> = 10000"
    by simp
  have x: "fl (of_int 10000 * (5902958103587057 / 590295810358705651712)) = 3602879701896397 / 36028797018963968"
    by (simp add: flExponent) (simp add: roundHalfEven_def)
  note steps = adjust_steps [OF countDecimals_step m p u a b q n x]
  show "adjustQuantityToLotSize (1 / 10) (1 / 100000) = 1 / 10"
    using steps by (simp add: toFixed_def)
qed

text \<open>
  An input between two grid points is lowered to the grid point below: the price
  50000.017 with the tick 0.01 becomes 50000.01, the quantity 0.123456 with the step
  0.00001 becomes 0.12345.
\<close>

lemma normalize_example_price:
  "adjustPriceToTickSize 50000.017 0.01 = 50000.01"
proof -
  have m: "fl (10 ^ 2) = 100"
    by (simp add: flExponent) (simp add: roundHalfEven_def)
  have p: "fl (50000017 / 1000) = 6871950010062209 / 137438953472"
    by (simp add: flExponent) (simp add: roundHalfEven_def)
  have u: "fl (1 / 100) = 5764607523034235 / 576460752303423488"
    by (simp add: flExponent) (simp add: roundHalfEven_def)
  have a: "fl ((6871950010062209 / 137438953472) * 100) = 5368710945361101 / 1073741824"
    by (simp add: flExponent) (simp add: roundHalfEven_def)
  have b: "fl ((5764607523034235 / 576460752303423488) * 100) = 1"
    by (simp add: flExponent) (simp add: roundHalfEven_def)
  have q: "fl ((5368710945361101 / 1073741824) / 1) = 5368710945361101 / 1073741824"
    by (simp add: flExponent) (simp add: roundHalfEven_def)
  have n: "\<lfloor>5368710945361101 / 1073741824 :: rat\<rfloor> = 5000001"
    by simp
  have x: "fl (of_int 5000001 * (5764607523034235 / 576460752303423488)) = 6871949047989535 / 137438953472"
    by (simp add: flExponent) (simp add: roundHalfEven_def)
  note steps = adjust_steps [OF countDecimals_tick m p u a b q n x]
  show "adjustPriceToTickSize 50000.017 0.01 = 50000.01"
    using steps by (simp add: toFixed_def)
qed

lemma normalize_example_quantity:
  "adjustQuantityToLotSize 0.123456 0.00001 = 0.12345"
proof -
  have m: "fl (10 ^ 5) = 100000"
    by (simp add: flExponent) (simp add: roundHalfEven_def)
  have p: "fl (123456 / 1000000) = 8895942329546431 / 72057594037927936"
    by (simp add: flExponent) (simp add: roundHalfEven_def)
  have u: "fl (1 / 100000) = 5902958103587057 / 590295810358705651712"
    by (simp add: flExponent) (simp add: roundHalfEven_def)
  have a: "fl ((8895942329546431 / 72057594037927936) * 100000) = 6787065375935693 / 549755813888"
    by (simp add: flExponent) (simp add: roundHalfEven_def)
  have b: "fl ((5902958103587057 / 590295810358705651712) * 100000) = 1"
    by (simp add: flExponent) (simp add: roundHalfEven_def)
  have q: "fl ((6787065375935693 / 549755813888) / 1) = 6787065375935693 / 549755813888"
    by (simp add: flExponent) (simp add: roundHalfEven_def)
  have n: "\<lfloor>6787065375935693 / 549755813888 :: rat\<rfloor> = 12345"
    by simp
  have x: "fl (of_int 12345 * (5902958103587057 / 590295810358705651712)) = 2223877495995551 / 18014398509481984"
    by (simp add: flExponent) (simp add: roundHalfEven_def)
  note steps = adjust_steps [OF countDecimals_step m p u a b q n x]
  show "adjustQuantityToLotSize 0.123456 0.00001 = 0.12345"
    using steps by (simp add: toFixed_def)
qed

text \<open>
  The quotient of two doubles can fall just below the integer it stands for, and the floor
  then takes one unit away: the price 0.29 with the tick 0.01 becomes 0.28, the quantity
  0.12507 with the step 0.00001 becomes 0.12506.
\<close>

lemma on_grid_price_loses_a_tick:
  "adjustPriceToTickSize 0.29 0.01 = 0.28"
proof -
  have m: "fl (10 ^ 2) = 100"
    by (simp add: flExponent) (simp add: roundHalfEven_def)
  have p: "fl (29 / 100) = 5224175567749775 / 18014398509481984"
    by (simp add: flExponent) (simp add: roundHalfEven_def)
  have u: "fl (1 / 100) = 5764607523034235 / 576460752303423488"
    by (simp add: flExponent) (simp add: roundHalfEven_def)
  have a: "fl ((5224175567749775 / 18014398509481984) * 100) = 8162774324609023 / 281474976710656"
    by (simp add: flExponent) (simp add: roundHalfEven_def)
  have b: "fl ((5764607523034235 / 576460752303423488) * 100) = 1"
    by (simp add: flExponent) (simp add: roundHalfEven_def)
  have q: "fl ((8162774324609023 / 281474976710656) / 1) = 8162774324609023 / 281474976710656"
    by (simp add: flExponent) (simp add: roundHalfEven_def)
  have n: "\<lfloor>8162774324609023 / 281474976710656 :: rat\<rfloor> = 28"
    by simp
  have x: "fl (of_int 28 * (5764607523034235 / 576460752303423488)) = 1261007895663739 / 4503599627370496"
    by (simp add: flExponent) (simp add: roundHalfEven_def)
  note steps = adjust_steps [OF countDecimals_tick m p u a b q n x]
  show "adjustPriceToTickSize 0.29 0.01 = 0.28"
    using steps by (simp add: toFixed_def)
qed

lemma on_grid_quantity_loses_a_step:
  "adjustQuantityToLotSize 0.12507 0.00001 = 0.12506"
proof -
  have m: "fl (10 ^ 5) = 100000"
    by (simp add: flExponent) (simp add: roundHalfEven_def)
  have p: "fl (12507 / 100000) = 4506121643161823 / 36028797018963968"
    by (simp add: flExponent) (simp add: roundHalfEven_def)
  have u: "fl (1 / 100000) = 5902958103587057 / 590295810358705651712"
    by (simp add: flExponent) (simp add: roundHalfEven_def)
  have a: "fl ((4506121643161823 / 36028797018963968) * 100000) = 6875795964297215 / 549755813888"
    by (simp add: flExponent) (simp add: roundHalfEven_def)
  have b: "fl ((5902958103587057 / 590295810358705651712) * 100000) = 1"
    by (simp add: flExponent) (simp add: roundHalfEven_def)
  have q: "fl ((6875795964297215 / 549755813888) / 1) = 6875795964297215 / 549755813888"
    by (simp add: flExponent) (simp add: roundHalfEven_def)
  have n: "\<lfloor>6875795964297215 / 549755813888 :: rat\<rfloor> = 12506"
    by simp
  have x: "fl (of_int 12506 * (5902958103587057 / 590295810358705651712)) = 2252880677595817 / 18014398509481984"
    by (simp add: flExponent) (simp add: roundHalfEven_def)
  note steps = adjust_steps [OF countDecimals_step m p u a b q n x]
  show "adjustQuantityToLotSize 0.12507 0.00001 = 0.12506"
    using steps by (simp add: toFixed_def)
qed
text \<open>
  C9. Normalization is meant to floor: the price to a multiple of the tick size, the
  quantity to a multiple of the step size, never upwards. The number of decimals is read
  off the printed size, and a size below \<open>10 ^ -6\<close> prints in exponent notation
  (\<open>1e-7\<close>), where no decimal point is found and the count is 0. The final rounding to
  that many places then rounds to the nearest integer: with the size 0.0000001, the price
  0.6 and the quantity 0.6 both come out as 1.
\<close>

theorem tiny_size_rounds_up:
  "countDecimals 0.0000001 = 0
   \<and> adjustPriceToTickSize 0.6 0.0000001 = 1
   \<and> adjustQuantityToLotSize 0.6 0.0000001 = 1"
  using adjust_tiny by simp

section \<open>The reservation\<close>

lemma cryptoBalance_updates:
  "b\<lparr>availableBalance := x, reservedBalance := y\<rparr> = \<lparr>availableBalance = x, reservedBalance = y\<rparr>"
  by (cases b) simp

lemma reserveRow_ok:
  assumes "balances tx (uid, token) = Some b" and "amount \<le> availableBalance b"
  shows "reserveRow uid token amount tx =
           Inr (tx\<lparr>balances := (balances tx)((uid, token) \<mapsto>
                  \<lparr>availableBalance = availableBalance b - amount,
                   reservedBalance = reservedBalance b + amount\<rparr>)\<rparr>)"
  using assms by (simp add: reserveRow_def cryptoBalance_updates)


lemma buy_total: "p * q + p * q * TRADING_FEE = p * q * 1.001"
  by (simp add: TRADING_FEE_def algebra_simps)

text \<open>
  The reservation of a BUY: the notional plus the fee of 0.001 of it, moved from the
  available to the reserved balance of the quote asset.
\<close>

lemma buy_reserves_notional_plus_fee:
  assumes "uid \<noteq> 0" and "0 < p" and "0 < q"
    and "balances tx (uid, quoteAsset pair) = Some b"
    and "p * q * 1.001 \<le> availableBalance b"
  shows "validateUserBalance uid pair BUY p q tx =
           Inr (tx\<lparr>balances := (balances tx)((uid, quoteAsset pair) \<mapsto>
                  \<lparr>availableBalance = availableBalance b - p * q * 1.001,
                   reservedBalance = reservedBalance b + p * q * 1.001\<rparr>)\<rparr>)"
proof -
  have "validateUserBalance uid pair BUY p q tx = reserveRow uid (quoteAsset pair) (p * q * 1.001) tx"
    using assms(1-3) by (simp add: validateUserBalance_def Let_def buy_total)
  then show ?thesis
    using reserveRow_ok [OF assms(4,5)] by simp
qed

text \<open>
  The proceeds that \<open>createTradeHistory\<close> computes for a SELL: the notional less the fee.
\<close>

lemma sell_proceeds_less_fee:
  assumes "0 < p" and "findByPk tx oid = Some ord" and "orderType ord = SELL"
  shows "map_sum id (quoteAmount \<circ> fst)
           (createTradeHistory ev uid pairId oid base quote p q ext tx) = Inr (p * q * 0.999)"
proof -
  have "\<not> p \<le> 0" using assms(1) by simp
  then show ?thesis
    using assms(2,3)
    by (simp add: createTradeHistory_def tradeHistoryCreate_def Let_def TRADING_FEE_def
        algebra_simps)
qed

section \<open>createOrder\<close>






lemma prepare_fixture:
  assumes "marketPairs d 1 = Some btcUsdt"
    and "getSymbolInfo ev ''BTCUSDT'' = Some \<lparr>tickSize = 0.01, stepSize = 0.00001\<rparr>"
  shows "prepareOrder ev 1 LIMIT (Some 50000) 0.1 d =
     Inr \<lparr>prepPair = btcUsdt, prepSymbol = ''BTCUSDT'', adjustedPrice = 50000,
          adjustedQuantity = 0.1\<rparr>"
  using assms
  by (simp add: prepareOrder_def btcUsdt_def adjust_fixture_price adjust_fixture_quantity)

lemma symbolInfo_fixture:
  "getSymbolInfo testEnv s = Some \<lparr>tickSize = 0.01, stepSize = 0.00001\<rparr>"
  "getSymbolInfo refusingEnv s = Some \<lparr>tickSize = 0.01, stepSize = 0.00001\<rparr>"
  by (simp_all add: testEnv_def refusingEnv_def)


text \<open>
  C5. When the exchange refuses or fails the submission after the reservation was made,
  the operation ends with the adapter's error and the transaction is rolled back: the
  database, and with it the available and the reserved balance of the row, is what it was
  before the reservation.
\<close>

theorem exchange_failure_rolls_back:
  assumes "validateInput uid pairId et p q = None"
    and "prepareOrder ev pairId et p q d = Inr pr"
    and "validateUserBalance uid (prepPair pr) ot (adjustedPrice pr) (adjustedQuantity pr) d = Inr tx"
    and "exchangePlace ev ot (prepSymbol pr) et
           (if et = LIMIT then Some (adjustedPrice pr) else None) (adjustedQuantity pr) = Inl failure"
  shows "createOrder ev uid pairId ot et p q d =
           (Inl (CustomError (msgOr failure ''Failed to place order on Binance'') (statusOr500 failure)), d)"
  using assms
  by (simp add: createOrder_def placeAndSettle_def placeOrderOnCEX_def Let_def)

theorem exchange_failure_rolls_back_witness:
  "validateUserBalance 1 btcUsdt BUY 50000 0.1 testDb =
     Inr (testDb\<lparr>balances := testBalances((1, ''USDT'') \<mapsto>
            \<lparr>availableBalance = 4995, reservedBalance = 10005\<rparr>)\<rparr>)
   \<and> createOrder refusingEnv 1 1 BUY LIMIT (Some 50000) 0.1 testDb =
       (Inl (CustomError ''Order would trigger immediately.'' 400), testDb)"
proof -
  have pairs: "marketPairs testDb 1 = Some btcUsdt"
    by (simp add: testDb_def)
  have prep: "prepareOrder refusingEnv 1 LIMIT (Some 50000) 0.1 testDb =
     Inr \<lparr>prepPair = btcUsdt, prepSymbol = ''BTCUSDT'', adjustedPrice = 50000,
          adjustedQuantity = 0.1\<rparr>"
    by (rule prepare_fixture [OF pairs symbolInfo_fixture(2)])
  have reserve: "validateUserBalance 1 btcUsdt BUY 50000 0.1 testDb =
     Inr (testDb\<lparr>balances := testBalances((1, ''USDT'') \<mapsto>
            \<lparr>availableBalance = 4995, reservedBalance = 10005\<rparr>)\<rparr>)"
    by (simp add: validateUserBalance_def reserveRow_def TRADING_FEE_def testDb_def
        testBalances_def btcUsdt_def)
  show ?thesis
    using exchange_failure_rolls_back [of 1 1 LIMIT "Some 50000" "0.1" refusingEnv testDb
        "\<lparr>prepPair = btcUsdt, prepSymbol = ''BTCUSDT'', adjustedPrice = 50000,
          adjustedQuantity = 0.1\<rparr>" BUY
        "testDb\<lparr>balances := testBalances((1, ''USDT'') \<mapsto>
            \<lparr>availableBalance = 4995, reservedBalance = 10005\<rparr>)\<rparr>"
        "failsWith (- 2010) ''Order would trigger immediately.''"]
      prep reserve
    by (simp add: validateInput_def refusingEnv_def testEnv_def failsWith_def msgOr_def
        statusOr500_def)
qed

section \<open>The immediate fill\<close>

lemma updateBalance_other:
  "key \<noteq> (uid, token) \<Longrightarrow> balances (updateBalance uid token amount tx) key = balances tx key"
  by (simp add: updateBalance_def Let_def)

lemma updateBalance_row:
  "balances tx (uid, token) = Some b \<Longrightarrow>
   balances (updateBalance uid token amount tx) (uid, token)
     = Some (b\<lparr>availableBalance := availableBalance b + amount\<rparr>)"
  by (simp add: updateBalance_def Let_def)

lemma balances_saveOrder [simp]: "balances (saveOrder ord tx) = balances tx"
  by (simp add: saveOrder_def)

text \<open>
  The trade row that \<open>createOrder\<close> writes for an order filled at once sets neither
  \<open>total\<close> nor \<open>fee\<close> nor \<open>feeCurrency\<close>, so the insert is refused. The refusal is not a
  \<open>CustomError\<close>: the \<open>catch\<close> block rolls the transaction back and raises the status
  500. Whenever the exchange answers FILLED, the operation fails and writes nothing.
\<close>

lemma immediate_fill_rolls_back:
  assumes "validateInput uid pairId et p q = None"
    and "prepareOrder ev pairId et p q d = Inr pr"
    and "validateUserBalance uid (prepPair pr) ot (adjustedPrice pr) (adjustedQuantity pr) d = Inr tx"
    and "exchangePlace ev ot (prepSymbol pr) et
           (if et = LIMIT then Some (adjustedPrice pr) else None) (adjustedQuantity pr) = Inr response"
    and "cexStatus response = ''FILLED''"
  shows "\<exists>row. total row = None \<and> fee row = None \<and> feeCurrency row = None
           \<and> createOrder ev uid pairId ot et p q d
               = (Inl (CustomError (''Failed to place order: '' @ notNullViolation ev row) 500), d)"
proof -
  obtain baseAmt quoteAmt where amounts:
    "settlementAmounts ot
       (case executedQty response of None \<Rightarrow> adjustedQuantity pr | Some v \<Rightarrow> v)
       (case cexPrice response of None \<Rightarrow> adjustedPrice pr | Some v \<Rightarrow> v) = (baseAmt, quoteAmt)"
    by (cases "settlementAmounts ot
       (case executedQty response of None \<Rightarrow> adjustedQuantity pr | Some v \<Rightarrow> v)
       (case cexPrice response of None \<Rightarrow> adjustedPrice pr | Some v \<Rightarrow> v)") simp
  let ?row = "\<lparr>tradeUserId = uid, tradeOrderId = freshOrderId tx, tradeMarketPairId = pairId,
      tradeBaseAsset = baseAsset (prepPair pr), tradeQuoteAsset = quoteAsset (prepPair pr),
      tradeQuantity = (case executedQty response of None \<Rightarrow> adjustedQuantity pr | Some v \<Rightarrow> v),
      tradePrice = (case cexPrice response of None \<Rightarrow> adjustedPrice pr | Some v \<Rightarrow> v),
      total = None, fee = None, feeCurrency = None,
      externalTradeId = Some (cexOrderId response)\<rparr>"
  have "createOrder ev uid pairId ot et p q d
          = (Inl (CustomError (''Failed to place order: '' @ notNullViolation ev ?row) 500), d)"
    using assms amounts
    by (simp add: createOrder_def placeAndSettle_def placeOrderOnCEX_def tradeHistoryCreate_def
        wrapPlace_def Let_def)
  then show ?thesis
    by (intro exI [of _ ?row]) simp
qed

text \<open>
  C3. The fee of 0.001 is to be charged on both sides: a BUY pays it on top of the spend,
  a SELL has it taken from the proceeds. The BUY half is what the reservation does: at
  price 50000 and quantity 0.1 it moves 5005 of the quote asset from available to
  reserved. The SELL half is not what the only settlement does. The amounts that
  \<open>createOrder\<close> would credit for a filled SELL of 0.1 at 50000 are the notional 5000,
  without the fee, where \<open>createTradeHistory\<close>, which no operation calls, computes 4995;
  and the SELL that the exchange fills at once ends with the status 500 and is rolled
  back, so that no proceeds are credited at all.
\<close>

theorem sell_settlement_takes_no_fee:
  "validateUserBalance 1 btcUsdt BUY 50000 0.1 testDb =
     Inr (testDb\<lparr>balances := testBalances((1, ''USDT'') \<mapsto>
            \<lparr>availableBalance = 4995, reservedBalance = 10005\<rparr>)\<rparr>)
   \<and> settlementAmounts SELL 0.1 50000 = (- 0.1, 5000)
   \<and> map_sum id (quoteAmount \<circ> fst)
        (createTradeHistory testEnv 1 1 1 ''BTC'' ''USDT'' 50000 0.1 (Some ''12345'') sellDb)
       = Inr 4995
   \<and> createOrder testEnv 1 1 SELL LIMIT (Some 50000) 0.1 testDb =
       (Inl (CustomError
              ''Failed to place order: notNull Violation: tradeHistory.total cannot be null'' 500),
        testDb)"
proof -
  have pairs: "marketPairs testDb 1 = Some btcUsdt"
    by (simp add: testDb_def)
  have prep: "prepareOrder testEnv 1 LIMIT (Some 50000) 0.1 testDb =
     Inr \<lparr>prepPair = btcUsdt, prepSymbol = ''BTCUSDT'', adjustedPrice = 50000,
          adjustedQuantity = 0.1\<rparr>"
    by (rule prepare_fixture [OF pairs symbolInfo_fixture(1)])
  have reserveBuy: "validateUserBalance 1 btcUsdt BUY 50000 0.1 testDb =
     Inr (testDb\<lparr>balances := testBalances((1, ''USDT'') \<mapsto>
            \<lparr>availableBalance = 4995, reservedBalance = 10005\<rparr>)\<rparr>)"
    by (simp add: validateUserBalance_def reserveRow_def TRADING_FEE_def testDb_def
        testBalances_def btcUsdt_def)
  have amounts: "settlementAmounts SELL 0.1 50000 = (- 0.1, 5000)"
    by (simp add: settlementAmounts_def)
  have found: "findByPk sellDb 1 = Some (orderRecord\<lparr>orderType := SELL\<rparr>)"
    by (simp add: findByPk_def sellDb_def testDb_def orderRecord_def)
  have sibling: "map_sum id (quoteAmount \<circ> fst)
        (createTradeHistory testEnv 1 1 1 ''BTC'' ''USDT'' 50000 0.1 (Some ''12345'') sellDb)
       = Inr 4995"
    using sell_proceeds_less_fee [of 50000 sellDb 1 "orderRecord\<lparr>orderType := SELL\<rparr>"
        testEnv 1 1 "''BTC''" "''USDT''" "0.1" "Some ''12345''"] found
    by simp
  have reserveSell: "validateUserBalance 1 btcUsdt SELL 50000 0.1 testDb =
     Inr (testDb\<lparr>balances := testBalances((1, ''BTC'') \<mapsto>
            \<lparr>availableBalance = 0.9, reservedBalance = 0.1\<rparr>)\<rparr>)"
    by (simp add: validateUserBalance_def reserveRow_def testDb_def testBalances_def btcUsdt_def)
  have "\<exists>row. total row = None \<and> fee row = None \<and> feeCurrency row = None
           \<and> createOrder testEnv 1 1 SELL LIMIT (Some 50000) 0.1 testDb
               = (Inl (CustomError (''Failed to place order: '' @ notNullViolation testEnv row) 500),
                  testDb)"
  proof (rule immediate_fill_rolls_back)
    show "validateInput 1 1 LIMIT (Some 50000) 0.1 = None"
      by (simp add: validateInput_def)
    show "prepareOrder testEnv 1 LIMIT (Some 50000) 0.1 testDb =
       Inr \<lparr>prepPair = btcUsdt, prepSymbol = ''BTCUSDT'', adjustedPrice = 50000,
            adjustedQuantity = 0.1\<rparr>"
      by (rule prep)
    show "validateUserBalance 1
            (prepPair \<lparr>prepPair = btcUsdt, prepSymbol = ''BTCUSDT'', adjustedPrice = 50000,
               adjustedQuantity = 0.1\<rparr>) SELL
            (adjustedPrice \<lparr>prepPair = btcUsdt, prepSymbol = ''BTCUSDT'', adjustedPrice = 50000,
               adjustedQuantity = 0.1\<rparr>)
            (adjustedQuantity \<lparr>prepPair = btcUsdt, prepSymbol = ''BTCUSDT'', adjustedPrice = 50000,
               adjustedQuantity = 0.1\<rparr>) testDb =
          Inr (testDb\<lparr>balances := testBalances((1, ''BTC'') \<mapsto>
            \<lparr>availableBalance = 0.9, reservedBalance = 0.1\<rparr>)\<rparr>)"
      using reserveSell by simp
    show "exchangePlace testEnv SELL
            (prepSymbol \<lparr>prepPair = btcUsdt, prepSymbol = ''BTCUSDT'', adjustedPrice = 50000,
               adjustedQuantity = 0.1\<rparr>) LIMIT
            (if LIMIT = LIMIT
             then Some (adjustedPrice \<lparr>prepPair = btcUsdt, prepSymbol = ''BTCUSDT'',
               adjustedPrice = 50000, adjustedQuantity = 0.1\<rparr>) else None)
            (adjustedQuantity \<lparr>prepPair = btcUsdt, prepSymbol = ''BTCUSDT'', adjustedPrice = 50000,
               adjustedQuantity = 0.1\<rparr>) = Inr (cexReply ''FILLED'')"
      by (simp add: testEnv_def)
    show "cexStatus (cexReply ''FILLED'') = ''FILLED''"
      by (simp add: cexReply_def)
  qed
  then have sell: "createOrder testEnv 1 1 SELL LIMIT (Some 50000) 0.1 testDb =
       (Inl (CustomError
              ''Failed to place order: notNull Violation: tradeHistory.total cannot be null'' 500),
        testDb)"
    by (auto simp add: testEnv_def)
  show ?thesis
    using reserveBuy amounts sibling sell by (intro conjI)
qed

text \<open>
  C10. A BUY that the exchange fills at once is to be settled on top of its reservation,
  so that the quote balance goes down by the reserved total and by the executed notional.
  The operation never gets there. On the account with 10000 USDT available, the limit BUY
  of 0.1 at 50000 that the exchange reports FILLED ends with the status 500: the insert
  of the trade row is refused, the transaction is rolled back, and the balance row is what
  it was, with nothing reserved and nothing debited.
\<close>

theorem immediate_fill_is_rolled_back:
  "createOrder testEnv 1 1 BUY LIMIT (Some 50000) 0.1 openingDb =
     (Inl (CustomError
            ''Failed to place order: notNull Violation: tradeHistory.total cannot be null'' 500),
      openingDb)
   \<and> balances openingDb (1, ''USDT'') = Some \<lparr>availableBalance = 10000, reservedBalance = 0\<rparr>"
proof -
  have pairs: "marketPairs openingDb 1 = Some btcUsdt"
    by (simp add: openingDb_def)
  have prep: "prepareOrder testEnv 1 LIMIT (Some 50000) 0.1 openingDb =
     Inr \<lparr>prepPair = btcUsdt, prepSymbol = ''BTCUSDT'', adjustedPrice = 50000,
          adjustedQuantity = 0.1\<rparr>"
    by (rule prepare_fixture [OF pairs symbolInfo_fixture(1)])
  have reserve: "validateUserBalance 1 btcUsdt BUY 50000 0.1 openingDb =
     Inr (openingDb\<lparr>balances := (balances openingDb)((1, ''USDT'') \<mapsto>
            \<lparr>availableBalance = 4995, reservedBalance = 5005\<rparr>)\<rparr>)"
    by (simp add: validateUserBalance_def reserveRow_def TRADING_FEE_def openingDb_def btcUsdt_def)
  have "\<exists>row. total row = None \<and> fee row = None \<and> feeCurrency row = None
           \<and> createOrder testEnv 1 1 BUY LIMIT (Some 50000) 0.1 openingDb
               = (Inl (CustomError (''Failed to place order: '' @ notNullViolation testEnv row) 500),
                  openingDb)"
  proof (rule immediate_fill_rolls_back)
    show "validateInput 1 1 LIMIT (Some 50000) 0.1 = None"
      by (simp add: validateInput_def)
    show "prepareOrder testEnv 1 LIMIT (Some 50000) 0.1 openingDb =
       Inr \<lparr>prepPair = btcUsdt, prepSymbol = ''BTCUSDT'', adjustedPrice = 50000,
            adjustedQuantity = 0.1\<rparr>"
      by (rule prep)
    show "validateUserBalance 1
            (prepPair \<lparr>prepPair = btcUsdt, prepSymbol = ''BTCUSDT'', adjustedPrice = 50000,
               adjustedQuantity = 0.1\<rparr>) BUY
            (adjustedPrice \<lparr>prepPair = btcUsdt, prepSymbol = ''BTCUSDT'', adjustedPrice = 50000,
               adjustedQuantity = 0.1\<rparr>)
            (adjustedQuantity \<lparr>prepPair = btcUsdt, prepSymbol = ''BTCUSDT'', adjustedPrice = 50000,
               adjustedQuantity = 0.1\<rparr>) openingDb =
          Inr (openingDb\<lparr>balances := (balances openingDb)((1, ''USDT'') \<mapsto>
            \<lparr>availableBalance = 4995, reservedBalance = 5005\<rparr>)\<rparr>)"
      using reserve by simp
    show "exchangePlace testEnv BUY
            (prepSymbol \<lparr>prepPair = btcUsdt, prepSymbol = ''BTCUSDT'', adjustedPrice = 50000,
               adjustedQuantity = 0.1\<rparr>) LIMIT
            (if LIMIT = LIMIT
             then Some (adjustedPrice \<lparr>prepPair = btcUsdt, prepSymbol = ''BTCUSDT'',
               adjustedPrice = 50000, adjustedQuantity = 0.1\<rparr>) else None)
            (adjustedQuantity \<lparr>prepPair = btcUsdt, prepSymbol = ''BTCUSDT'', adjustedPrice = 50000,
               adjustedQuantity = 0.1\<rparr>) = Inr (cexReply ''FILLED'')"
      by (simp add: testEnv_def)
    show "cexStatus (cexReply ''FILLED'') = ''FILLED''"
      by (simp add: cexReply_def)
  qed
  then have "createOrder testEnv 1 1 BUY LIMIT (Some 50000) 0.1 openingDb =
     (Inl (CustomError
            ''Failed to place order: notNull Violation: tradeHistory.total cannot be null'' 500),
      openingDb)"
    by (auto simp add: testEnv_def)
  moreover have "balances openingDb (1, ''USDT'')
                   = Some \<lparr>availableBalance = 10000, reservedBalance = 0\<rparr>"
    by (simp add: openingDb_def)
  ultimately show ?thesis
    by (intro conjI)
qed

section \<open>cancelOrder\<close>

lemma fixture_lookup [simp]:
  "findOrder placedDb 1 1 = Some orderRecord"
  "findOrder (withStatus st) 1 1 = Some (orderRecord\<lparr>status := st\<rparr>)"
  "marketPairs placedDb 1 = Some btcUsdt"
  "marketPairs (withStatus st) 1 = Some btcUsdt"
  "marketPairId orderRecord = 1" "status orderRecord = ''PLACED''"
  "externalOrderId orderRecord = Some ''12345''"
  by (simp_all add: findOrder_def placedDb_def withStatus_def orderRecord_def)

lemma create_resting:
  "createOrder restingEnv 1 1 BUY LIMIT (Some 50000) 0.1 openingDb = (Inr orderRecord, placedDb)"
proof -
  have pairs: "marketPairs openingDb 1 = Some btcUsdt"
    by (simp add: openingDb_def)
  have info: "getSymbolInfo restingEnv ''BTCUSDT'' = Some \<lparr>tickSize = 0.01, stepSize = 0.00001\<rparr>"
    by (simp add: restingEnv_def testEnv_def)
  have reserve: "validateUserBalance 1 btcUsdt BUY 50000 0.1 openingDb =
     Inr (openingDb\<lparr>balances := [(1, ''USDT'') \<mapsto>
            \<lparr>availableBalance = 4995, reservedBalance = 5005\<rparr>]\<rparr>)"
    by (simp add: validateUserBalance_def reserveRow_def TRADING_FEE_def openingDb_def btcUsdt_def)
  show ?thesis
    using prepare_fixture [OF pairs info] reserve
    by (simp add: createOrder_def validateInput_def placeAndSettle_def placeOrderOnCEX_def
        restingEnv_def testEnv_def cexReply_def freshOrderId_def saveOrder_def openingDb_def
        placedDb_def orderRecord_def Let_def)
qed

lemma release_lowers_reserved_only:
  assumes "balances tx (uid, releaseToken ord pair) = Some b"
  shows "balances (releaseReserved uid ord pair tx) (uid, releaseToken ord pair)
           = Some \<lparr>availableBalance = availableBalance b,
                   reservedBalance = reservedBalance b - releaseAmount ord\<rparr>"
  using assms by (cases b) (simp add: releaseReserved_def)

lemma markOrder_keeps_balances: "balances (snd (markOrder st msg ord d)) = balances d"
  by (simp add: markOrder_def saveOrder_def)

lemma cancel_confirmed:
  "cancelOrder restingEnv 1 1 placedDb =
     (Inr (''Order canceled successfully'', orderRecord\<lparr>status := ''CANCELLED''\<rparr>),
      placedDb\<lparr>orders := [orderRecord\<lparr>status := ''CANCELLED''\<rparr>],
               balances := [(1, ''USDT'') \<mapsto> \<lparr>availableBalance = 4995, reservedBalance = 5\<rparr>]\<rparr>)"
  by (simp add: cancelOrder_def getOrderStatusFromCEX_def cancelOnExchange_def
      cancelOrderOnCEX_def restingEnv_def testEnv_def cexReply_def btcUsdt_def)
     (simp add: releaseReserved_def releaseToken_def releaseAmount_def saveOrder_def
      placedDb_def orderRecord_def Let_def)

text \<open>
  C1. A release on cancellation is meant to move the released amount from the reserved
  balance back to the available balance, so that their sum stays. The code lowers the
  reserved balance and leaves the available balance alone. The user of the fixture starts
  with 10000 USDT; placing the limit order reserves 5005 (available 4995, reserved 5005);
  the confirmed cancellation leaves available 4995 and reserved 5: the sum fell from 10000
  to 5000 with no trade settled.
\<close>

theorem cancel_release_drops_funds:
  "balances openingDb (1, ''USDT'') = Some \<lparr>availableBalance = 10000, reservedBalance = 0\<rparr>
   \<and> createOrder restingEnv 1 1 BUY LIMIT (Some 50000) 0.1 openingDb = (Inr orderRecord, placedDb)
   \<and> balances placedDb (1, ''USDT'') = Some \<lparr>availableBalance = 4995, reservedBalance = 5005\<rparr>
   \<and> fst (cancelOrder restingEnv 1 1 placedDb)
       = Inr (''Order canceled successfully'', orderRecord\<lparr>status := ''CANCELLED''\<rparr>)
   \<and> balances (snd (cancelOrder restingEnv 1 1 placedDb)) (1, ''USDT'')
       = Some \<lparr>availableBalance = 4995, reservedBalance = 5\<rparr>"
  by (simp add: create_resting cancel_confirmed) (simp add: openingDb_def placedDb_def)

text \<open>
  C2. Every way in which \<open>cancelOrder\<close> marks an order CANCELLED is meant to release the
  order's reservation. Only the confirmed cancel request reaches the release. When the
  status query reports CANCELED, or fails because the order does not exist, the order is
  marked CANCELLED and the balances are committed as they were: the 5005 USDT reserved
  for the order stay reserved.
\<close>

theorem cancelled_without_release:
  "cancelOrder canceledEnv 1 1 placedDb =
     (Inr (''Order already canceled'', orderRecord\<lparr>status := ''CANCELLED''\<rparr>),
      placedDb\<lparr>orders := [orderRecord\<lparr>status := ''CANCELLED''\<rparr>]\<rparr>)
   \<and> cancelOrder goneEnv 1 1 placedDb =
     (Inr (''Order not found on Binance, marked canceled'', orderRecord\<lparr>status := ''CANCELLED''\<rparr>),
      placedDb\<lparr>orders := [orderRecord\<lparr>status := ''CANCELLED''\<rparr>]\<rparr>)
   \<and> balances (placedDb\<lparr>orders := [orderRecord\<lparr>status := ''CANCELLED''\<rparr>]\<rparr>) (1, ''USDT'')
       = Some \<lparr>availableBalance = 4995, reservedBalance = 5005\<rparr>"
  by (simp add: cancelOrder_def getOrderStatusFromCEX_def canceledEnv_def goneEnv_def
      testEnv_def cexReply_def btcUsdt_def markOrder_def failsWith_def msgOr_def statusOr500_def)
     (simp add: saveOrder_def placedDb_def orderRecord_def)

text \<open>
  C6 as stated fails: cancelling an order that is already CANCELLED does not succeed, it
  is refused with the status 400.
\<close>

theorem cancel_terminal_counterexample:
  "fst (cancelOrder testEnv 1 1 (withStatus ''CANCELLED''))
     = Inl (CustomError ''Only active orders can be canceled'' 400)"
  by (simp add: cancelOrder_def orderRecord_def)

text \<open>
  C6, amended. A \<open>cancelOrder\<close> call on an order that is already CANCELLED or already
  FILLED is refused with the error "Only active orders can be canceled" (status 400); it
  asks the exchange nothing and leaves the orders and the ledger as they were.
\<close>

theorem cancel_terminal_refused:
  assumes "findOrder d oid uid = Some ord"
    and "status ord = ''CANCELLED'' \<or> status ord = ''FILLED''"
  shows "cancelOrder ev uid oid d = (Inl (CustomError ''Only active orders can be canceled'' 400), d)"
  using assms by (auto simp add: cancelOrder_def)

theorem cancel_terminal_refused_witness:
  "findOrder (withStatus ''FILLED'') 1 1 = Some (orderRecord\<lparr>status := ''FILLED''\<rparr>)
   \<and> cancelOrder testEnv 1 1 (withStatus ''FILLED'')
       = (Inl (CustomError ''Only active orders can be canceled'' 400), withStatus ''FILLED'')"
  using cancel_terminal_refused [of "withStatus ''FILLED''" 1 1 "orderRecord\<lparr>status := ''FILLED''\<rparr>" testEnv]
  by simp

text \<open>
  C8 as stated fails: the "unknown order" answer to a cancel request comes out of the
  adapter as an error with status 404, and \<open>cancelOrder\<close> fails with it.
\<close>

theorem cancel_unknown_order_counterexample:
  "cancelOrderOnCEX unknownEnv (Some ''12345'') ''BTCUSDT''
     = Inl (CustomError ''Order not found or already executed'' 404)
   \<and> cancelOrder unknownEnv 1 1 placedDb
     = (Inl (CustomError ''Order not found or already executed'' 404), placedDb)"
  by (simp add: cancelOrder_def getOrderStatusFromCEX_def cancelOnExchange_def
      cancelOrderOnCEX_def unknownEnv_def testEnv_def cexReply_def btcUsdt_def failsWith_def)

text \<open>
  C8, amended. The adapter maps the exchange's error codes -2011 ("unknown order") and
  -2013 ("order does not exist") on a cancel request to errors of status 404 with fixed
  messages. They surface from the cancel path: a \<open>cancelOrder\<close> call that reaches the
  cancel request fails with that error, and the order and the ledger stay as they were.
\<close>

theorem cancel_unknown_order_is_404:
  assumes "findOrder d oid uid = Some ord" and "status ord = ''PLACED''"
    and "marketPairs d (marketPairId ord) = Some pair"
    and "exchangeStatus ev (externalOrderId ord) (Some (baseAsset pair @ quoteAsset pair)) = Inr state"
    and "cexStatus state \<noteq> ''FILLED''" and "cexStatus state \<noteq> ''CANCELED''"
    and "exchangeCancel ev (externalOrderId ord) (baseAsset pair @ quoteAsset pair) = Inl failure"
    and "responseCode failure = Some (- 2011) \<or> responseCode failure = Some (- 2013)"
    and "err = CustomError (if responseCode failure = Some (- 2011)
                            then ''Order not found or already executed''
                            else ''Order already finished (filled or canceled)'') 404"
  shows "cancelOrderOnCEX ev (externalOrderId ord) (baseAsset pair @ quoteAsset pair) = Inl err
         \<and> cancelOrder ev uid oid d = (Inl err, d)"
proof -
  have adapter: "cancelOrderOnCEX ev (externalOrderId ord) (baseAsset pair @ quoteAsset pair) = Inl err"
    using assms(7,8,9) by (auto simp add: cancelOrderOnCEX_def)
  have "cancelOrder ev uid oid d = cancelOnExchange ev uid ord pair d"
    using assms(1-6) by (simp add: cancelOrder_def getOrderStatusFromCEX_def)
  then show ?thesis
    using adapter by (simp add: cancelOnExchange_def)
qed

theorem cancel_unknown_order_is_404_witness:
  "exchangeCancel finishedEnv (Some ''12345'') ''BTCUSDT''
     = Inl (failsWith (- 2013) ''Order does not exist.'')
   \<and> cancelOrderOnCEX finishedEnv (Some ''12345'') ''BTCUSDT''
     = Inl (CustomError ''Order already finished (filled or canceled)'' 404)
   \<and> cancelOrder finishedEnv 1 1 placedDb
     = (Inl (CustomError ''Order already finished (filled or canceled)'' 404), placedDb)"
  using cancel_unknown_order_is_404 [of placedDb 1 1 orderRecord btcUsdt finishedEnv
      "cexReply ''NEW''" "failsWith (- 2013) ''Order does not exist.''"
      "CustomError ''Order already finished (filled or canceled)'' 404"]
  by (simp add: finishedEnv_def testEnv_def cexReply_def btcUsdt_def failsWith_def)

section \<open>syncOrderStatuses\<close>


end
